theory Spec2Isabelle
  imports Complex_Main "HOL-Library.Sublist"
begin

section \<open>Go values used by lib/myip/myip.go\<close>

subsection \<open>Errors\<close>

text \<open>
  A Go \<open>error\<close> is either nil or a value with a text: \<open>error option\<close> is the interface
  value, \<open>None\<close> being nil, and \<open>err_Error\<close> is the method \<open>Error()\<close>. Three dynamic
  types occur: \<open>*net.AddrError\<close> (from \<open>net.SplitHostPort\<close>), the execution error of
  \<open>text/template\<close> (template name and message; the source position and the node that Go
  prints between them are left out), and an error made by code outside myip.go
  (\<open>HandleMyIP\<close>), known only by its text.
\<close>

datatype error =
    AddrError (Err: string) (Addr: string)
  | ExecError string string
  | errorString string

fun err_Error :: "error \<Rightarrow> string" where
  "err_Error (AddrError err addr) = (if addr \<noteq> [] then ''address '' @ addr @ '': '' @ err else err)"
| "err_Error (ExecError name msg) = ''template: '' @ name @ '': '' @ msg"
| "err_Error (errorString s) = s"

subsection \<open>Configuration, request, header maps\<close>

text \<open>
  \<open>conf.Config\<close> is declared in lib/conf; myip.go reads the fields \<open>Debug\<close>, \<open>IPHeader\<close>
  and \<open>Host\<close>.
\<close>

record conf_Config =
  Debug :: bool
  IPHeader :: string
  Host :: string

record DefaultServer =
  Config :: conf_Config

text \<open>
  \<open>http.Header\<close> and \<open>url.Values\<close> are both \<open>map[string][]string\<close>. \<open>Get\<close> returns the
  first value stored under the key, or the empty string.
\<close>

type_synonym url_Values = "string \<rightharpoonup> string list"
type_synonym http_Header = "string \<rightharpoonup> string list"

definition Values_Get :: "url_Values \<Rightarrow> string \<Rightarrow> string" where
  "Values_Get v key = (case v key of None \<Rightarrow> [] | Some [] \<Rightarrow> [] | Some (x # _) \<Rightarrow> x)"

text \<open>
  \<open>Header.Get\<close> and \<open>Header.Set\<close> first bring the key into canonical form
  (\<open>textproto.CanonicalMIMEHeaderKey\<close>): a key holding a byte that is not a token
  character is left as it is; otherwise the first letter and every letter after a hyphen
  are made upper case and all other letters lower case.
\<close>

definition validHeaderFieldByte :: "char \<Rightarrow> bool" where
  "validHeaderFieldByte c =
     (c \<in> set ''abcdefghijklmnopqrstuvwxyzABCDEFGHIJKLMNOPQRSTUVWXYZ0123456789!#$%&*+-.^_`|~''
      \<or> c = CHR 0x27)"

definition toUpper :: "char \<Rightarrow> char" where
  "toUpper c = (case map_of (zip ''abcdefghijklmnopqrstuvwxyz'' ''ABCDEFGHIJKLMNOPQRSTUVWXYZ'') c of
                  Some u \<Rightarrow> u | None \<Rightarrow> c)"

definition toLower :: "char \<Rightarrow> char" where
  "toLower c = (case map_of (zip ''ABCDEFGHIJKLMNOPQRSTUVWXYZ'' ''abcdefghijklmnopqrstuvwxyz'') c of
                  Some l \<Rightarrow> l | None \<Rightarrow> c)"

fun canonicalMIMEHeaderKey :: "bool \<Rightarrow> string \<Rightarrow> string" where
  "canonicalMIMEHeaderKey upper [] = []"
| "canonicalMIMEHeaderKey upper (c # cs) =
     (let c' = (if upper then toUpper c else toLower c)
      in c' # canonicalMIMEHeaderKey (c' = CHR ''-'') cs)"

definition CanonicalMIMEHeaderKey :: "string \<Rightarrow> string" where
  "CanonicalMIMEHeaderKey s =
     (if list_all validHeaderFieldByte s then canonicalMIMEHeaderKey True s else s)"

definition Header_Get :: "http_Header \<Rightarrow> string \<Rightarrow> string" where
  "Header_Get h key =
     (case h (CanonicalMIMEHeaderKey key) of None \<Rightarrow> [] | Some [] \<Rightarrow> [] | Some (x # _) \<Rightarrow> x)"

definition Header_Set :: "http_Header \<Rightarrow> string \<Rightarrow> string \<Rightarrow> http_Header" where
  "Header_Set h key val = h(CanonicalMIMEHeaderKey key \<mapsto> [val])"

text \<open>
  Of \<open>url.URL\<close> the code uses the path (through the router), the scheme (through the
  security middleware; it is empty unless the request line holds an absolute URI) and
  \<open>Query()\<close>, the query string parsed into \<open>url.Values\<close>; the record holds the parsed
  values. \<open>req.TLS\<close> is a pointer that is nil on a connection without TLS.
\<close>

record url_URL =
  Scheme :: string
  Path :: string
  Query :: url_Values

datatype tls_ConnectionState = ConnectionState

record http_Request =
  Method :: string
  URL :: url_URL
  Proto :: string
  Header :: http_Header
  RemoteAddr :: string
  TLS :: "tls_ConnectionState option"

section \<open>Address resolution\<close>

subsection \<open>net.SplitHostPort\<close>

text \<open>
  \<open>IndexByteString\<close> and \<open>LastIndexByteString\<close> return the first and the last index of a
  byte, or -1. \<open>slice s a b\<close> is Go's \<open>s[a:b]\<close>.
\<close>

fun IndexByteString :: "string \<Rightarrow> char \<Rightarrow> int" where
  "IndexByteString [] c = -1"
| "IndexByteString (x # xs) c =
     (if x = c then 0
      else (let i = IndexByteString xs c in if i < 0 then -1 else i + 1))"

definition LastIndexByteString :: "string \<Rightarrow> char \<Rightarrow> int" where
  "LastIndexByteString s c =
     (let i = IndexByteString (rev s) c in if i < 0 then -1 else int (length s) - 1 - i)"

definition slice :: "string \<Rightarrow> int \<Rightarrow> int \<Rightarrow> string" where
  "slice s a b = take (nat b - nat a) (drop (nat a) s)"

definition missingPort :: string where
  "missingPort = ''missing port in address''"

definition tooManyColons :: string where
  "tooManyColons = ''too many colons in address''"

definition addrErr :: "string \<Rightarrow> string \<Rightarrow> string \<times> string \<times> error option" where
  "addrErr addr why = ([], [], Some (AddrError why addr))"

text \<open>
  The two bracket checks and the final return of \<open>SplitHostPort\<close>, shared by the
  bracketed and the plain branch: \<open>j\<close> and \<open>k\<close> are the positions from which a further
  \<open>[\<close> and \<open>]\<close> are looked for, \<open>i\<close> is the index of the last colon.
\<close>

definition splitRest :: "string \<Rightarrow> string \<Rightarrow> int \<Rightarrow> int \<Rightarrow> int \<Rightarrow> string \<times> string \<times> error option" where
  "splitRest hostport host j k i =
     (if IndexByteString (drop (nat j) hostport) CHR ''['' \<ge> 0
        then addrErr hostport (''unexpected '' @ [CHR 0x27] @ ''['' @ [CHR 0x27] @ '' in address'')
      else if IndexByteString (drop (nat k) hostport) CHR '']'' \<ge> 0
        then addrErr hostport (''unexpected '' @ [CHR 0x27] @ '']'' @ [CHR 0x27] @ '' in address'')
      else (host, drop (nat (i + 1)) hostport, None))"

definition SplitHostPort :: "string \<Rightarrow> string \<times> string \<times> error option" where
  "SplitHostPort hostport =
     (let i = LastIndexByteString hostport CHR '':'' in
      if i < 0 then addrErr hostport missingPort
      else if hostport ! 0 = CHR ''['' then
        (let endb = IndexByteString hostport CHR '']'' in
         if endb < 0 then addrErr hostport (''missing '' @ [CHR 0x27] @ '']'' @ [CHR 0x27] @ '' in address'')
         else if endb + 1 = int (length hostport) then addrErr hostport missingPort
         else if endb + 1 = i then splitRest hostport (slice hostport 1 endb) 1 (endb + 1) i
         else if hostport ! nat (endb + 1) = CHR '':'' then addrErr hostport tooManyColons
         else addrErr hostport missingPort)
      else
        (let host = slice hostport 0 i in
         if IndexByteString host CHR '':'' \<ge> 0 then addrErr hostport tooManyColons
         else splitRest hostport host 0 0 i))"

subsection \<open>DefaultServer.GetRemoteAddr\<close>

definition GetRemoteAddr :: "DefaultServer \<Rightarrow> http_Request \<Rightarrow> string \<times> error option" where
  "GetRemoteAddr s req =
     (let remoteAddr = http_Request.RemoteAddr req;
          host = Values_Get (Query (http_Request.URL req)) ''host''
      in if host \<noteq> [] \<and> Debug (Config s) then (host, None)
         else
           (let remoteAddr =
                  (if IPHeader (Config s) \<noteq> [] then
                     (let addr = Header_Get (http_Request.Header req) (IPHeader (Config s))
                      in if addr \<noteq> [] then addr else remoteAddr)
                   else remoteAddr);
                (host, port, err) = SplitHostPort remoteAddr
            in if err \<noteq> None then (remoteAddr, None) else (host, err)))"

section \<open>Response data\<close>

text \<open>
  \<open>dns.Response\<close>, \<open>whois.Response\<close> and \<open>location.Response\<close> are declared in sibling
  packages. The records hold the fields that \<open>cliTmpl\<close> reads; the template compares
  \<open>Lat\<close> and \<open>Long\<close> with the constant \<open>0.0\<close>, so they are floating-point numbers, taken
  here as the real numbers they denote (no NaN, no infinity). \<open>uaparser.Client\<close> belongs
  to an external library and is never inspected.
\<close>

record dns_Response =
  Names :: "string list"

record whois_Response =
  Body :: string

record location_Response =
  City :: string
  Region :: string
  Country :: string
  Lat :: real
  Long :: real

typedecl uaparser_Client

record ErrResponse =
  Error :: string

record Response =
  RequestID :: string
  RemoteAddr :: string
  RemoteAddrFamily :: string
  RemoteAddrReverse :: "dns_Response option"
  RemoteAddrWhois :: "whois_Response option"
  ActualRemoteAddr :: string
  Method :: string
  URL :: string
  Proto :: string
  Header :: http_Header
  Location :: "location_Response option"
  UserAgent :: "uaparser_Client option"
  Insights :: "(string \<times> string) list"

text \<open>
  The names of the members that \<open>encoding/json\<close> writes for a \<open>Response\<close>, from the
  struct tags: a field tagged \<open>omitempty\<close> is left out when it is the empty string, a nil
  pointer or an empty map.
\<close>

definition json_members :: "Response \<Rightarrow> string list" where
  "json_members r =
     (if RequestID r \<noteq> [] then [''RequestID''] else []) @
     [''RemoteAddr'', ''RemoteAddrFamily''] @
     (if RemoteAddrReverse r \<noteq> None then [''RemoteAddrReverse''] else []) @
     (if RemoteAddrWhois r \<noteq> None then [''RemoteAddrWhois''] else []) @
     (if ActualRemoteAddr r \<noteq> [] then [''ActualRemoteAddr''] else []) @
     [''Method'', ''URL'', ''Proto'', ''Header''] @
     (if Location r \<noteq> None then [''Location''] else []) @
     (if UserAgent r \<noteq> None then [''UserAgent''] else []) @
     (if Insights r \<noteq> [] then [''Insights''] else [])"

text \<open>
  The \<open>obj interface{}\<close> handed to \<open>WriteJSON\<close> holds a \<open>*Response\<close> (possibly nil) or an
  \<open>*ErrResponse\<close>. \<open>WriteJSON\<close> ignores the error result of \<open>Encode\<close>; the encoding
  of these objects is taken to succeed.
\<close>

datatype any = ptr_Response "Response option" | ptr_ErrResponse ErrResponse

section \<open>The response writer\<close>

text \<open>
  What is written to an \<open>http.ResponseWriter\<close> is kept as the list of the pieces written:
  literal bytes, the default formatting (\<open>fmt.Fprint\<close>) of a value that is not a string,
  or the JSON document that \<open>json.Encoder.Encode\<close> writes for an object. \<open>val\<close> is the
  view that \<open>text/template\<close> has of its data: strings, floats, booleans, slices, structs
  with named fields, and nil pointers (with the name of the pointer type).
\<close>

datatype val =
    VString string
  | VFloat real
  | VBool bool
  | VSlice "val list"
  | VStruct "(string \<times> val) list"
  | VNil string

datatype chunk = Bytes string | Fprint val | JSON any

text \<open>
  The contract of \<open>http.ResponseWriter\<close>: \<open>Header()\<close> returns the header map, which the
  handler changes in place (\<open>header\<close>). \<open>WriteHeader\<close> sends the status line together
  with the header map as it is at that moment (\<open>status\<close> and \<open>sent\<close>, both \<open>None\<close> until
  then); a change of the header map after that does not reach the client, and a second
  \<open>WriteHeader\<close> changes nothing. \<open>Write\<close> calls \<open>WriteHeader(200)\<close> first if nothing was
  sent yet, then appends to the body.
\<close>

record ResponseWriter =
  header :: http_Header
  status :: "nat option"
  sent :: "http_Header option"
  body :: "chunk list"

definition WriteHeader :: "nat \<Rightarrow> ResponseWriter \<Rightarrow> ResponseWriter" where
  "WriteHeader code w =
     (if status w = None then w\<lparr>status := Some code, sent := Some (header w)\<rparr> else w)"

definition Write :: "chunk \<Rightarrow> ResponseWriter \<Rightarrow> ResponseWriter" where
  "Write b w = (let w' = WriteHeader 200 w in w'\<lparr>body := body w' @ [b]\<rparr>)"

definition SetHeader :: "string \<Rightarrow> string \<Rightarrow> ResponseWriter \<Rightarrow> ResponseWriter" where
  "SetHeader key val w = w\<lparr>header := Header_Set (header w) key val\<rparr>"

section \<open>Executing a text template\<close>

text \<open>
  The parse tree of a template, for the constructs \<open>cliTmpl\<close> uses: literal text, an action
  that prints a value, \<open>range\<close> and \<open>if\<close> (both without \<open>else\<close>). A value is given by
  the dot, a chain of field names applied to the dot, a number, or a call of a builtin
  function.
\<close>

datatype expr =
    DotNode
  | FieldNode "string list"
  | NumberNode real
  | CommandNode string "expr list"

datatype node =
    TextNode string
  | ActionNode expr
  | RangeNode expr "node list"
  | IfNode expr "node list"

record Template =
  name :: string
  Tree :: "node list"

text \<open>
  Evaluation returns a value or the message of the error that stops the execution.
  Reading a field through a nil pointer is such an error (the message is the one of
  current Go releases). The arguments of a function call are all evaluated before the
  call.
\<close>

fun evalField :: "val \<Rightarrow> string \<Rightarrow> string + val" where
  "evalField (VNil typ) fieldName = Inl (''nil pointer evaluating '' @ typ @ ''.'' @ fieldName)"
| "evalField (VStruct fs) fieldName =
     (case map_of fs fieldName of
        Some v \<Rightarrow> Inr v
      | None \<Rightarrow> Inl (''can't evaluate field '' @ fieldName))"
| "evalField v fieldName = Inl (''can't evaluate field '' @ fieldName)"

fun evalFieldChain :: "val \<Rightarrow> string list \<Rightarrow> string + val" where
  "evalFieldChain receiver [] = Inr receiver"
| "evalFieldChain receiver (f # ident) =
     (case evalField receiver f of
        Inl m \<Rightarrow> Inl m
      | Inr v \<Rightarrow> evalFieldChain v ident)"

fun isTrue :: "val \<Rightarrow> bool" where
  "isTrue (VString s) = (s \<noteq> [])"
| "isTrue (VFloat x) = (x \<noteq> 0)"
| "isTrue (VBool b) = b"
| "isTrue (VSlice xs) = (xs \<noteq> [])"
| "isTrue (VStruct fs) = True"
| "isTrue (VNil typ) = False"

fun eq :: "val \<Rightarrow> val \<Rightarrow> string + bool" where
  "eq (VString a) (VString b) = Inr (a = b)"
| "eq (VFloat a) (VFloat b) = Inr (a = b)"
| "eq (VBool a) (VBool b) = Inr (a = b)"
| "eq a b = Inl ''incompatible types for comparison''"

fun ne :: "val list \<Rightarrow> string + val" where
  "ne [a, b] = (case eq a b of Inl m \<Rightarrow> Inl m | Inr t \<Rightarrow> Inr (VBool (\<not> t)))"
| "ne args = Inl ''wrong number of args for ne''"

text \<open>\<open>and\<close> returns its first argument that is not true, or else its last argument.\<close>

fun and_builtin :: "val list \<Rightarrow> string + val" where
  "and_builtin [] = Inl ''wrong number of args for and''"
| "and_builtin [v] = Inr v"
| "and_builtin (v # vs) = (if isTrue v then and_builtin vs else Inr v)"

definition evalCall :: "string \<Rightarrow> val list \<Rightarrow> string + val" where
  "evalCall f args =
     (if f = ''and'' then and_builtin args
      else if f = ''ne'' then ne args
      else Inl (''function '' @ f @ '' not defined''))"

fun evalArg :: "val \<Rightarrow> expr \<Rightarrow> string + val"
  and evalArgs :: "val \<Rightarrow> expr list \<Rightarrow> string + val list" where
  "evalArg dot DotNode = Inr dot"
| "evalArg dot (FieldNode ident) = evalFieldChain dot ident"
| "evalArg dot (NumberNode x) = Inr (VFloat x)"
| "evalArg dot (CommandNode f args) =
     (case evalArgs dot args of
        Inl m \<Rightarrow> Inl m
      | Inr vs \<Rightarrow> evalCall f vs)"
| "evalArgs dot [] = Inr []"
| "evalArgs dot (a # as) =
     (case evalArg dot a of
        Inl m \<Rightarrow> Inl m
      | Inr v \<Rightarrow> (case evalArgs dot as of Inl m \<Rightarrow> Inl m | Inr vs \<Rightarrow> Inr (v # vs)))"

definition printValue :: "val \<Rightarrow> chunk" where
  "printValue v = (case v of VString s \<Rightarrow> Bytes s | _ \<Rightarrow> Fprint v)"

text \<open>
  \<open>walk\<close> executes a node and returns the pieces written, in order, and the error that
  stopped the execution, if any. The pieces written before an error stay written.
\<close>

fun walk :: "val \<Rightarrow> node \<Rightarrow> chunk list \<times> string option"
  and walkList :: "val \<Rightarrow> node list \<Rightarrow> chunk list \<times> string option"
  and walkRange :: "val list \<Rightarrow> node list \<Rightarrow> chunk list \<times> string option" where
  "walk dot (TextNode t) = ([Bytes t], None)"
| "walk dot (ActionNode e) =
     (case evalArg dot e of
        Inl m \<Rightarrow> ([], Some m)
      | Inr v \<Rightarrow> ([printValue v], None))"
| "walk dot (IfNode c nodes) =
     (case evalArg dot c of
        Inl m \<Rightarrow> ([], Some m)
      | Inr v \<Rightarrow> if isTrue v then walkList dot nodes else ([], None))"
| "walk dot (RangeNode e nodes) =
     (case evalArg dot e of
        Inl m \<Rightarrow> ([], Some m)
      | Inr (VSlice xs) \<Rightarrow> walkRange xs nodes
      | Inr _ \<Rightarrow> ([], Some ''range can't iterate over value''))"
| "walkList dot [] = ([], None)"
| "walkList dot (n # ns) =
     (case walk dot n of
        (out, Some m) \<Rightarrow> (out, Some m)
      | (out, None) \<Rightarrow> (case walkList dot ns of (out', e) \<Rightarrow> (out @ out', e)))"
| "walkRange [] nodes = ([], None)"
| "walkRange (x # xs) nodes =
     (case walkList x nodes of
        (out, Some m) \<Rightarrow> (out, Some m)
      | (out, None) \<Rightarrow> (case walkRange xs nodes of (out', e) \<Rightarrow> (out @ out', e)))"

text \<open>
  \<open>Template.Execute\<close> writes to \<open>w\<close> as it goes, so what was produced before an error has
  already been written when the error is returned.
\<close>

definition Execute :: "Template \<Rightarrow> ResponseWriter \<Rightarrow> val \<Rightarrow> ResponseWriter \<times> error option" where
  "Execute t w data =
     (case walkList data (Tree t) of
        (out, e) \<Rightarrow> (foldl (\<lambda>w c. Write c w) w out, map_option (ExecError (name t)) e))"

section \<open>lib/myip/myip.go\<close>

subsection \<open>isCli and cliTmpl\<close>

definition isCli :: "http_Request \<Rightarrow> bool" where
  "isCli req =
     (let ua = Header_Get (http_Request.Header req) ''User-Agent''
      in prefix ''curl/'' ua \<or> prefix ''Wget/'' ua)"

text \<open>
  The tree that \<open>template.New("test").Parse\<close> builds from the template text of the
  source: the text between two actions is one text node.
\<close>

definition cliTmpl :: Template where
  "cliTmpl = \<lparr>name = ''test'', Tree =
     [TextNode ''IP: '', ActionNode (FieldNode [''RemoteAddr'']), TextNode ''\<newline>'',
      RangeNode (FieldNode [''RemoteAddrReverse'', ''Names''])
        [TextNode ''DNS: '', ActionNode DotNode, TextNode ''\<newline>''],
      TextNode ''\<newline>WHOIS:\<newline>'',
      ActionNode (FieldNode [''RemoteAddrWhois'', ''Body'']),
      TextNode ''\<newline>\<newline>Location: '',
      ActionNode (FieldNode [''Location'', ''City'']), TextNode '' '',
      ActionNode (FieldNode [''Location'', ''Region'']), TextNode '' '',
      ActionNode (FieldNode [''Location'', ''Country'']),
      IfNode (CommandNode ''and''
                [CommandNode ''ne'' [FieldNode [''Location'', ''Lat''], NumberNode 0],
                 CommandNode ''ne'' [FieldNode [''Location'', ''Long''], NumberNode 0]])
        [TextNode '' ('', ActionNode (FieldNode [''Location'', ''Lat'']), TextNode '', '',
         ActionNode (FieldNode [''Location'', ''Long'']), TextNode '') ''],
      TextNode ''\<newline>\<newline>ID: '', ActionNode (FieldNode [''RequestID'']),
      TextNode ''\<newline>'']\<rparr>"

text \<open>
  The template's view of the \<open>*Response\<close> that \<open>cliHandler\<close> passes as data. The fields
  \<open>Header\<close>, \<open>UserAgent\<close> and \<open>Insights\<close>, which \<open>cliTmpl\<close> never reads, are not part of
  the view.
\<close>

definition dns_val :: "dns_Response option \<Rightarrow> val" where
  "dns_val p = (case p of
       None \<Rightarrow> VNil ''*dns.Response''
     | Some d \<Rightarrow> VStruct [(''Names'', VSlice (map VString (Names d)))])"

definition whois_val :: "whois_Response option \<Rightarrow> val" where
  "whois_val p = (case p of
       None \<Rightarrow> VNil ''*whois.Response''
     | Some x \<Rightarrow> VStruct [(''Body'', VString (Body x))])"

definition location_val :: "location_Response option \<Rightarrow> val" where
  "location_val p = (case p of
       None \<Rightarrow> VNil ''*location.Response''
     | Some l \<Rightarrow> VStruct [(''City'', VString (City l)), (''Region'', VString (Region l)),
                          (''Country'', VString (Country l)),
                          (''Lat'', VFloat (Lat l)), (''Long'', VFloat (Long l))])"

definition Response_val :: "Response option \<Rightarrow> val" where
  "Response_val p = (case p of
       None \<Rightarrow> VNil ''*myip.Response''
     | Some r \<Rightarrow> VStruct
         [(''RequestID'', VString (RequestID r)),
          (''RemoteAddr'', VString (Response.RemoteAddr r)),
          (''RemoteAddrFamily'', VString (RemoteAddrFamily r)),
          (''RemoteAddrReverse'', dns_val (RemoteAddrReverse r)),
          (''RemoteAddrWhois'', whois_val (RemoteAddrWhois r)),
          (''ActualRemoteAddr'', VString (ActualRemoteAddr r)),
          (''Method'', VString (Response.Method r)),
          (''URL'', VString (Response.URL r)),
          (''Proto'', VString (Response.Proto r)),
          (''Location'', location_val (Location r))])"

subsection \<open>DefaultServer.WriteJSON and DefaultServer.WriteText\<close>

definition WriteJSON ::
  "DefaultServer \<Rightarrow> ResponseWriter \<Rightarrow> http_Request \<Rightarrow> any \<Rightarrow> error option \<Rightarrow> ResponseWriter" where
  "WriteJSON s w req obj err =
     (let (w, obj) = (case err of
                        Some e \<Rightarrow> (WriteHeader 500 w, ptr_ErrResponse \<lparr>Error = err_Error e\<rparr>)
                      | None \<Rightarrow> (w, obj));
          scheme = (if TLS req \<noteq> None then ''https://'' else ''http://'');
          w = SetHeader ''Content-Type'' ''application/json'' w;
          w = SetHeader ''Access-Control-Allow-Origin'' (scheme @ Host (Config s)) w;
          w = SetHeader ''Vary'' ''Origin'' w
      in Write (JSON obj) w)"

definition WriteText ::
  "DefaultServer \<Rightarrow> ResponseWriter \<Rightarrow> http_Request \<Rightarrow> Template \<Rightarrow> val \<Rightarrow> error option
     \<Rightarrow> ResponseWriter" where
  "WriteText s w req tmpl data err =
     (let w = SetHeader ''Content-Type'' ''text/plain'' w;
          (w, err) = (if err = None then Execute tmpl w data else (w, err))
      in case err of
           Some e \<Rightarrow> Write (Bytes (err_Error e)) (WriteHeader 500 w)
         | None \<Rightarrow> w)"

subsection \<open>Register: the two handlers and the routes\<close>

text \<open>
  \<open>HandleMyIP\<close> and \<open>addInsights\<close> are defined outside myip.go; the handlers take them as
  the parameters \<open>handleMyIP\<close> and \<open>addInsights\<close>. \<open>WriteText\<close> and \<open>WriteJSON\<close> are those
  of \<open>DefaultServer\<close>.
\<close>

definition cliHandler ::
  "DefaultServer \<Rightarrow> (http_Request \<Rightarrow> Response option \<times> error option)
     \<Rightarrow> ResponseWriter \<Rightarrow> http_Request \<Rightarrow> ResponseWriter" where
  "cliHandler app handleMyIP w req =
     (let (response, err) = handleMyIP req
      in WriteText app w req cliTmpl (Response_val response) err)"

definition jsonHandler ::
  "DefaultServer \<Rightarrow> (http_Request \<Rightarrow> Response option \<times> error option)
     \<Rightarrow> (http_Request \<Rightarrow> Response option \<Rightarrow> Response option)
     \<Rightarrow> ResponseWriter \<Rightarrow> http_Request \<Rightarrow> ResponseWriter" where
  "jsonHandler app handleMyIP addInsights w req =
     (let (response, err) = handleMyIP req;
          response = (if err \<noteq> None then addInsights req response else response)
      in WriteJSON app w req (ptr_Response response) err)"

text \<open>
  The options that \<open>Register\<close> gives to \<open>secure.New\<close>; every other option keeps its zero
  value.
\<close>

record secure_Options =
  IsDevelopment :: bool
  SSLRedirect :: bool
  SSLHost :: string
  SSLProxyHeaders :: "(string \<times> string) list"
  STSSeconds :: nat
  STSIncludeSubdomains :: bool
  STSPreload :: bool
  FrameDeny :: bool
  ContentTypeNosniff :: bool
  BrowserXssFilter :: bool
  ContentSecurityPolicy :: string

definition secureOptions :: "conf_Config \<Rightarrow> secure_Options" where
  "secureOptions config =
     \<lparr>IsDevelopment = Debug config,
      SSLRedirect = True,
      SSLHost = [],
      SSLProxyHeaders = [(''X-Forwarded-Proto'', ''https'')],
      STSSeconds = 365 * 24 * 60 * 60,
      STSIncludeSubdomains = True,
      STSPreload = True,
      FrameDeny = True,
      ContentTypeNosniff = True,
      BrowserXssFilter = True,
      ContentSecurityPolicy =
        ''default-src '' @ [CHR 0x27] @ ''self'' @ [CHR 0x27] @ '';''
        @ '' connect-src *;''
        @ '' script-src '' @ [CHR 0x27] @ ''self'' @ [CHR 0x27] @ '' www.google-analytics.com;''
        @ '' img-src data: '' @ [CHR 0x27] @ ''self'' @ [CHR 0x27]
        @ '' www.google-analytics.com maps.googleapis.com;''\<rparr>"

text \<open>
  The middleware of the library \<open>unrolled/secure\<close>, for these options. A request counts
  as SSL when its URL scheme is \<open>https\<close> (in any case of the letters), when it arrived
  over TLS, or when one of the proxy headers has the configured value. Outside
  development mode a request that is not SSL is answered with a permanent redirect to
  the \<open>https\<close> URL and the handler is not called. Otherwise the security headers are set
  on the header map and the handler is called; the \<open>Strict-Transport-Security\<close> header is
  set only for an SSL request outside development mode.
\<close>

definition isSSL :: "secure_Options \<Rightarrow> http_Request \<Rightarrow> bool" where
  "isSSL opt r =
     (map toLower (Scheme (http_Request.URL r)) = ''https''
      \<or> TLS r \<noteq> None
      \<or> list_ex (\<lambda>(k, v). Header_Get (http_Request.Header r) k = v) (SSLProxyHeaders opt))"

fun digits :: "nat \<Rightarrow> nat \<Rightarrow> string" where
  "digits 0 n = []"
| "digits (Suc fuel) n =
     (if n < 10 then [''0123456789'' ! n]
      else digits fuel (n div 10) @ [''0123456789'' ! (n mod 10)])"

text \<open>
  The decimal numeral of a number below \<open>10 ^ 20\<close>, as \<open>%d\<close> prints an \<open>int64\<close> that is
  not negative.
\<close>

definition decimal :: "nat \<Rightarrow> string" where
  "decimal n = digits 20 n"

definition secureHeaders :: "secure_Options \<Rightarrow> bool \<Rightarrow> (string \<times> string) list" where
  "secureHeaders opt ssl =
     (if STSSeconds opt \<noteq> 0 \<and> ssl \<and> \<not> IsDevelopment opt
      then [(''Strict-Transport-Security'',
             ''max-age='' @ decimal (STSSeconds opt)
             @ (if STSIncludeSubdomains opt then ''; includeSubDomains'' else [])
             @ (if STSPreload opt then ''; preload'' else []))]
      else [])
     @ (if FrameDeny opt then [(''X-Frame-Options'', ''DENY'')] else [])
     @ (if ContentTypeNosniff opt then [(''X-Content-Type-Options'', ''nosniff'')] else [])
     @ (if BrowserXssFilter opt then [(''X-XSS-Protection'', ''1; mode=block'')] else [])
     @ (if ContentSecurityPolicy opt \<noteq> []
        then [(''Content-Security-Policy'', ContentSecurityPolicy opt)] else [])"

definition addResponseHeaders :: "secure_Options \<Rightarrow> bool \<Rightarrow> ResponseWriter \<Rightarrow> ResponseWriter" where
  "addResponseHeaders opt ssl w = foldl (\<lambda>w (k, v). SetHeader k v w) w (secureHeaders opt ssl)"

text \<open>
  What becomes of a request: it is answered with a redirect of the given status (by
  \<open>http.Redirect\<close>, whose output is not detailed) and no handler is called; or
  \<open>cliHandler\<close> or \<open>jsonHandler\<close> is called and leaves the given writer; or the request
  goes to \<open>HandleConfigJs\<close>, to the file server or to the not-found handler, which are
  outside myip.go.
\<close>

datatype served = Redirected nat | Written ResponseWriter | Outside

definition secure_Handler ::
  "secure_Options \<Rightarrow> (ResponseWriter \<Rightarrow> served) \<Rightarrow> ResponseWriter \<Rightarrow> http_Request \<Rightarrow> served" where
  "secure_Handler opt h w r =
     (let ssl = isSSL opt r
      in if SSLRedirect opt \<and> \<not> ssl \<and> \<not> IsDevelopment opt then Redirected 301
         else h (addResponseHeaders opt ssl w))"

text \<open>
  The router first brings the request path into its clean form (a leading slash, no empty
  element, no \<open>.\<close>, every \<open>..\<close> resolved, a trailing slash kept) and redirects when the
  path was not clean. \<open>path_Clean\<close> is \<open>path.Clean\<close> on paths that begin with a slash.
\<close>

fun elements :: "string \<Rightarrow> string list" where
  "elements [] = [[]]"
| "elements (c # cs) =
     (if c = CHR ''/'' then [] # elements cs
      else (case elements cs of [] \<Rightarrow> [[c]] | e # es \<Rightarrow> (c # e) # es))"

fun cleanElements :: "string list \<Rightarrow> string list \<Rightarrow> string list" where
  "cleanElements kept [] = rev kept"
| "cleanElements kept (e # es) =
     (if e = [] \<or> e = ''.'' then cleanElements kept es
      else if e = ''..'' then cleanElements (tl kept) es
      else cleanElements (e # kept) es)"

fun joinElements :: "string list \<Rightarrow> string" where
  "joinElements [] = []"
| "joinElements [e] = e"
| "joinElements (e # es) = e @ ''/'' @ joinElements es"

definition path_Clean :: "string \<Rightarrow> string" where
  "path_Clean p = ''/'' @ joinElements (cleanElements [] (elements p))"

definition cleanPath :: "string \<Rightarrow> string" where
  "cleanPath p =
     (if p = [] then ''/''
      else (let p = (if hd p \<noteq> CHR ''/'' then ''/'' @ p else p);
                np = path_Clean p
            in if last p = CHR ''/'' \<and> np \<noteq> ''/'' then np @ ''/'' else np))"

text \<open>
  Then the router tries its routes in the order of registration and serves the first one
  that matches. A route made by \<open>MatcherFunc\<close> matches when its function returns true, one
  made by \<open>HandleFunc\<close> with a path when the request path is that path, one made by
  \<open>PathPrefix\<close> when the request path starts with the prefix.
\<close>

datatype matcher =
    MatcherFunc "http_Request \<Rightarrow> bool"
  | PathMatcher string
  | PathPrefix string

datatype handler = H_cliHandler | H_jsonHandler | H_HandleConfigJs | H_FileServer

fun Match :: "matcher \<Rightarrow> http_Request \<Rightarrow> bool" where
  "Match (MatcherFunc f) req = f req"
| "Match (PathMatcher p) req = (Path (http_Request.URL req) = p)"
| "Match (PathPrefix p) req = prefix p (Path (http_Request.URL req))"

fun Router_Match :: "(matcher \<times> handler) list \<Rightarrow> http_Request \<Rightarrow> handler option" where
  "Router_Match [] req = None"
| "Router_Match ((m, h) # routes) req = (if Match m req then Some h else Router_Match routes req)"

definition routes :: "(matcher \<times> handler) list" where
  "routes =
     [(MatcherFunc isCli, H_cliHandler),
      (PathMatcher ''/json'', H_jsonHandler),
      (PathMatcher ''/config.js'', H_HandleConfigJs),
      (PathPrefix ''/'', H_FileServer)]"

text \<open>
  Serving a request with the router that \<open>Register app config\<close> builds: the middleware
  installed with \<open>r.Use\<close> wraps the handler of the route that matched. The logging
  handler around the router writes its log line to standard error and passes the request
  on unchanged.
\<close>

definition ServeHTTP ::
  "DefaultServer \<Rightarrow> conf_Config \<Rightarrow> (http_Request \<Rightarrow> Response option \<times> error option)
     \<Rightarrow> (http_Request \<Rightarrow> Response option \<Rightarrow> Response option)
     \<Rightarrow> ResponseWriter \<Rightarrow> http_Request \<Rightarrow> served" where
  "ServeHTTP app config handleMyIP addInsights w req =
     (if cleanPath (Path (http_Request.URL req)) \<noteq> Path (http_Request.URL req)
      then Redirected 301
      else (case Router_Match routes req of
              None \<Rightarrow> Outside
            | Some H_cliHandler \<Rightarrow>
                secure_Handler (secureOptions config)
                  (\<lambda>w. Written (cliHandler app handleMyIP w req)) w req
            | Some H_jsonHandler \<Rightarrow>
                secure_Handler (secureOptions config)
                  (\<lambda>w. Written (jsonHandler app handleMyIP addInsights w req)) w req
            | Some _ \<Rightarrow> secure_Handler (secureOptions config) (\<lambda>w. Outside) w req))"

section \<open>Shapes of a JSON body and sample inputs\<close>

text \<open>
  A piece of the body is a \<open>Response\<close> document when it is the JSON encoding of a non-nil
  \<open>*Response\<close>, and an \<open>ErrResponse\<close> document when it is the JSON encoding of an
  \<open>*ErrResponse\<close>. The encoding of a nil \<open>*Response\<close> (the JSON text \<open>null\<close>) is neither.
\<close>

fun is_Response :: "chunk \<Rightarrow> bool" where
  "is_Response (JSON (ptr_Response (Some r))) = True"
| "is_Response c = False"

fun is_ErrResponse :: "chunk \<Rightarrow> bool" where
  "is_ErrResponse (JSON (ptr_ErrResponse e)) = True"
| "is_ErrResponse c = False"

fun is_JSON :: "chunk \<Rightarrow> bool" where
  "is_JSON (JSON obj) = True"
| "is_JSON c = False"

text \<open>A writer to which nothing has been written yet, a server and a request.\<close>

definition newWriter :: ResponseWriter where
  "newWriter = \<lparr>header = Map.empty, status = None, sent = None, body = []\<rparr>"

definition server0 :: DefaultServer where
  "server0 = \<lparr>Config = \<lparr>Debug = False, IPHeader = [], Host = ''ip.example.com''\<rparr>\<rparr>"

definition request0 :: http_Request where
  "request0 = \<lparr>http_Request.Method = ''GET'',
                http_Request.URL = \<lparr>Scheme = [], Path = ''/'', Query = Map.empty\<rparr>,
                http_Request.Proto = ''HTTP/1.1'', http_Request.Header = Map.empty,
                http_Request.RemoteAddr = ''192.0.2.5:54321'', TLS = None\<rparr>"

text \<open>
  A response with every enrichment present, for a place on the equator: latitude 0,
  longitude 36.8.
\<close>

definition response0 :: Response where
  "response0 = \<lparr>RequestID = ''req-1'', RemoteAddr = ''192.0.2.5'', RemoteAddrFamily = ''IPv4'',
                 RemoteAddrReverse = Some \<lparr>Names = [''host.example.'']\<rparr>,
                 RemoteAddrWhois = Some \<lparr>Body = ''NetName: TEST-NET-1''\<rparr>,
                 ActualRemoteAddr = [], Method = ''GET'', URL = ''/'', Proto = ''HTTP/1.1'',
                 Header = Map.empty,
                 Location = Some \<lparr>City = ''Nanyuki'', Region = ''Laikipia'', Country = ''KE'',
                                  Lat = 0, Long = 36.8\<rparr>,
                 UserAgent = None, Insights = []\<rparr>"

text \<open>Sample results of \<open>HandleMyIP\<close> and a sample \<open>addInsights\<close>.\<close>

definition handleMyIP_ok :: "Response \<Rightarrow> http_Request \<Rightarrow> Response option \<times> error option" where
  "handleMyIP_ok r req = (Some r, None)"

definition handleMyIP_fails :: "string \<Rightarrow> http_Request \<Rightarrow> Response option \<times> error option" where
  "handleMyIP_fails msg req = (None, Some (errorString msg))"

definition addInsights0 :: "http_Request \<Rightarrow> Response option \<Rightarrow> Response option" where
  "addInsights0 req response = response"

text \<open>
  A server behind a proxy that sets the trusted header \<open>X-Real-IP\<close>, the same server in
  debug mode, a request that carries the header, and one that carries the \<open>host\<close> query
  parameter as well.
\<close>

definition server_proxy :: DefaultServer where
  "server_proxy = \<lparr>Config = \<lparr>Debug = False, IPHeader = ''X-Real-IP'', Host = ''ip.example.com''\<rparr>\<rparr>"

definition server_debug :: DefaultServer where
  "server_debug = \<lparr>Config = \<lparr>Debug = True, IPHeader = ''X-Real-IP'', Host = ''ip.example.com''\<rparr>\<rparr>"

definition request_proxied :: http_Request where
  "request_proxied = request0\<lparr>http_Request.Header := [''X-Real-Ip'' \<mapsto> [''198.51.100.9'']]\<rparr>"

definition request_override :: http_Request where
  "request_override =
     request_proxied\<lparr>http_Request.URL :=
       \<lparr>Scheme = [], Path = ''/'', Query = [''host'' \<mapsto> [''203.0.113.7'']]\<rparr>\<rparr>"

text \<open>
  Requests for the path \<open>/json\<close> that arrive over TLS, one from curl and one from a
  browser, and the browser's request over plain HTTP.
\<close>

definition request_curl_json :: http_Request where
  "request_curl_json =
     request0\<lparr>http_Request.URL := \<lparr>Scheme = [], Path = ''/json'', Query = Map.empty\<rparr>,
              http_Request.Header := [''User-Agent'' \<mapsto> [''curl/7.68.0'']],
              TLS := Some ConnectionState\<rparr>"

definition request_browser_json :: http_Request where
  "request_browser_json =
     request0\<lparr>http_Request.URL := \<lparr>Scheme = [], Path = ''/json'', Query = Map.empty\<rparr>,
              http_Request.Header := [''User-Agent'' \<mapsto> [''Mozilla/5.0 (X11; Linux x86_64)'']],
              TLS := Some ConnectionState\<rparr>"

definition request_browser_json_plain :: http_Request where
  "request_browser_json_plain = request_browser_json\<lparr>TLS := None\<rparr>"

text \<open>A \<open>HandleMyIP\<close> that returns a nil response and a nil error.\<close>

definition handleMyIP_nil :: "http_Request \<Rightarrow> Response option \<times> error option" where
  "handleMyIP_nil req = (None, None)"

text \<open>
  Variants of \<open>response0\<close>: a place with both coordinates non-zero, a response whose
  geolocation lookup failed, and one whose reverse DNS lookup failed.
\<close>

definition response_nairobi :: Response where
  "response_nairobi = response0\<lparr>Location :=
       Some \<lparr>City = ''Nairobi'', Region = ''Nairobi'', Country = ''KE'',
             Lat = -1.29, Long = 36.82\<rparr>\<rparr>"

definition response_nogeo :: Response where
  "response_nogeo = response0\<lparr>Location := None\<rparr>"

definition response_nodns :: Response where
  "response_nodns = response0\<lparr>RemoteAddrReverse := None\<rparr>"

section \<open>Properties of address resolution\<close>

subsection \<open>Searching a byte and splitting host and port\<close>

lemma IndexByteString_absent: "c \<notin> set xs \<Longrightarrow> IndexByteString xs c = -1"
  by (induction xs) auto

lemma IndexByteString_first:
  "c \<notin> set xs \<Longrightarrow> IndexByteString (xs @ c # ys) c = int (length xs)"
  by (induction xs) (auto simp: Let_def)

lemma LastIndexByteString_absent: "c \<notin> set s \<Longrightarrow> LastIndexByteString s c = -1"
  by (simp add: LastIndexByteString_def IndexByteString_absent)

lemma LastIndexByteString_last:
  "c \<notin> set ys \<Longrightarrow> LastIndexByteString (xs @ c # ys) c = int (length xs)"
  using IndexByteString_first [of c "rev ys" "rev xs"]
  by (simp add: LastIndexByteString_def Let_def)

text \<open>An address without a colon has no port: \<open>SplitHostPort\<close> fails on it.\<close>

lemma SplitHostPort_no_colon:
  "CHR '':'' \<notin> set a \<Longrightarrow> SplitHostPort a = ([], [], Some (AddrError missingPort a))"
  by (simp add: SplitHostPort_def LastIndexByteString_absent addrErr_def)

text \<open>
  A host and a port that hold no colon and no bracket, joined by a colon, are split at
  that colon.
\<close>

lemma SplitHostPort_plain:
  assumes h: "set h \<inter> {CHR '':'', CHR ''['', CHR '']''} = {}"
      and p: "set p \<inter> {CHR '':'', CHR ''['', CHR '']''} = {}"
  shows "SplitHostPort (h @ '':'' @ p) = (h, p, None)"
proof -
  let ?a = "h @ CHR '':'' # p"
  have i: "LastIndexByteString ?a CHR '':'' = int (length h)"
    using p by (intro LastIndexByteString_last) auto
  have first: "?a ! 0 \<noteq> CHR ''[''"
    using h by (cases h) auto
  have host: "slice ?a 0 (int (length h)) = h"
    by (simp add: slice_def)
  have nocolon: "IndexByteString h CHR '':'' = -1"
    using h by (intro IndexByteString_absent) auto
  have nobr: "IndexByteString ?a CHR ''['' = -1" "IndexByteString ?a CHR '']'' = -1"
    using h p by (auto intro!: IndexByteString_absent)
  have k: "nat (int (length h) + 1) - length h = Suc 0"
    by linarith
  show ?thesis
    using first by (simp add: SplitHostPort_def i host nocolon splitRest_def nobr k)
qed

lemma Canonical_X_Real_IP: "CanonicalMIMEHeaderKey ''X-Real-IP'' = ''X-Real-Ip''"
  by (simp add: CanonicalMIMEHeaderKey_def validHeaderFieldByte_def toUpper_def toLower_def Let_def)

subsection \<open>The debug override\<close>

text \<open>
  Claim C2. With debug enabled and a non-empty \<open>host\<close> query parameter,
  \<open>GetRemoteAddr\<close> returns that parameter, whatever the peer address of the request is.
  With debug disabled the query is ignored: replacing it by any other query \<open>q\<close> leaves
  the result unchanged, so the answer comes from the header and the peer address alone.
\<close>

theorem GetRemoteAddr_debug_override:
  "(Debug (Config s) \<and> Values_Get (Query (http_Request.URL req)) ''host'' \<noteq> [] \<longrightarrow>
      GetRemoteAddr s (req\<lparr>http_Request.RemoteAddr := peer\<rparr>)
        = (Values_Get (Query (http_Request.URL req)) ''host'', None))
   \<and> (\<not> Debug (Config s) \<longrightarrow>
      GetRemoteAddr s (req\<lparr>http_Request.URL := (http_Request.URL req)\<lparr>Query := q\<rparr>\<rparr>)
        = GetRemoteAddr s req)"
  by (auto simp add: GetRemoteAddr_def Let_def split: prod.splits)

text \<open>
  In debug mode the request with \<open>host=203.0.113.7\<close> resolves to that address from any
  peer; without debug the same request resolves to the value of the trusted header, as
  it does without the query parameter.
\<close>

theorem GetRemoteAddr_debug_override_witness:
  "GetRemoteAddr server_debug (request_override\<lparr>http_Request.RemoteAddr := ''192.0.2.77:1''\<rparr>)
     = (''203.0.113.7'', None)
   \<and> GetRemoteAddr server_proxy request_override = (''198.51.100.9'', None)"
proof -
  have d: "Debug (Config server_debug)
      \<and> Values_Get (Query (http_Request.URL request_override)) ''host'' \<noteq> []"
    by (simp add: server_debug_def request_override_def Values_Get_def)
  have nd: "\<not> Debug (Config server_proxy)"
    by (simp add: server_proxy_def)
  have q: "request_proxied\<lparr>http_Request.URL :=
             (http_Request.URL request_proxied)\<lparr>Query := [''host'' \<mapsto> [''203.0.113.7'']]\<rparr>\<rparr>
           = request_override"
    by (simp add: request_override_def request_proxied_def request0_def)
  have p: "GetRemoteAddr server_proxy request_proxied = (''198.51.100.9'', None)"
    by (simp add: GetRemoteAddr_def server_proxy_def request_proxied_def request0_def
        Values_Get_def Header_Get_def Canonical_X_Real_IP SplitHostPort_no_colon)
  from GetRemoteAddr_debug_override [of server_debug request_override "''192.0.2.77:1''"] d
  have 1: "GetRemoteAddr server_debug
             (request_override\<lparr>http_Request.RemoteAddr := ''192.0.2.77:1''\<rparr>)
           = (''203.0.113.7'', None)"
    by (simp add: request_override_def Values_Get_def)
  from GetRemoteAddr_debug_override
         [of server_proxy request_proxied _ "[''host'' \<mapsto> [''203.0.113.7'']]"] nd
  have 2: "GetRemoteAddr server_proxy request_override = (''198.51.100.9'', None)"
    by (simp add: q p)
  from 1 2 show ?thesis by simp
qed

subsection \<open>The trusted header\<close>

text \<open>
  Claim C3, as amended. When the debug override does not apply (debug is disabled or the
  \<open>host\<close> query parameter is empty), \<open>IPHeader\<close> is configured, and the request carries
  that header with a non-empty value \<open>v\<close> that does not split into host and port, then
  \<open>GetRemoteAddr\<close> returns \<open>v\<close>, whatever the peer address is.
\<close>

theorem GetRemoteAddr_trusted_header:
  assumes "\<not> (Values_Get (Query (http_Request.URL req)) ''host'' \<noteq> [] \<and> Debug (Config s))"
      and "IPHeader (Config s) \<noteq> []"
      and "Header_Get (http_Request.Header req) (IPHeader (Config s)) = v"
      and "v \<noteq> []"
      and "snd (snd (SplitHostPort v)) \<noteq> None"
  shows "GetRemoteAddr s (req\<lparr>http_Request.RemoteAddr := peer\<rparr>) = (v, None)"
  using assms by (auto simp: GetRemoteAddr_def Let_def split: prod.splits)

theorem GetRemoteAddr_trusted_header_witness:
  "GetRemoteAddr server_proxy (request_proxied\<lparr>http_Request.RemoteAddr := ''10.0.0.1:4711''\<rparr>)
     = (''198.51.100.9'', None)"
proof -
  have 1: "\<not> (Values_Get (Query (http_Request.URL request_proxied)) ''host'' \<noteq> []
              \<and> Debug (Config server_proxy))"
    by (simp add: server_proxy_def)
  have 2: "IPHeader (Config server_proxy) \<noteq> []"
    by (simp add: server_proxy_def)
  have 3: "Header_Get (http_Request.Header request_proxied) (IPHeader (Config server_proxy))
             = ''198.51.100.9''"
    by (simp add: server_proxy_def request_proxied_def Header_Get_def Canonical_X_Real_IP)
  have 4: "''198.51.100.9'' \<noteq> []"
    by simp
  have 5: "snd (snd (SplitHostPort ''198.51.100.9'')) \<noteq> None"
    by (simp add: SplitHostPort_no_colon)
  show ?thesis
    by (rule GetRemoteAddr_trusted_header [OF 1 2 3 4 5])
qed

text \<open>
  Claim C3 as stated fails in debug mode: the header \<open>X-Real-IP: 198.51.100.9\<close> is
  configured, present, non-empty and without a port, yet the request resolves to the
  \<open>host\<close> query parameter, which is tested first.
\<close>

theorem GetRemoteAddr_trusted_header_counterexample:
  "IPHeader (Config server_debug) \<noteq> []
   \<and> Header_Get (http_Request.Header request_override) (IPHeader (Config server_debug))
       = ''198.51.100.9''
   \<and> CHR '':'' \<notin> set ''198.51.100.9''
   \<and> GetRemoteAddr server_debug request_override = (''203.0.113.7'', None)"
  by (simp add: GetRemoteAddr_def server_debug_def request_override_def request_proxied_def
      request0_def Values_Get_def Header_Get_def Canonical_X_Real_IP)

subsection \<open>The peer address\<close>

text \<open>
  Claim C4. For a request resolved from the peer address (no debug override applies and
  no trusted header value is used): when \<open>SplitHostPort\<close> splits the peer address,
  \<open>GetRemoteAddr\<close> returns the host part and a nil error; when \<open>SplitHostPort\<close> fails,
  it returns the peer address unchanged and a nil error. In particular \<open>h:p\<close> with no
  colon or bracket in \<open>h\<close> and \<open>p\<close> resolves to \<open>h\<close>, and an address without a colon
  resolves to itself.
\<close>

theorem GetRemoteAddr_peer_address:
  assumes "\<not> (Values_Get (Query (http_Request.URL req)) ''host'' \<noteq> [] \<and> Debug (Config s))"
      and "IPHeader (Config s) = []
           \<or> Header_Get (http_Request.Header req) (IPHeader (Config s)) = []"
  shows "(\<forall>host port. SplitHostPort (http_Request.RemoteAddr req) = (host, port, None)
            \<longrightarrow> GetRemoteAddr s req = (host, None))
       \<and> (\<forall>e. snd (snd (SplitHostPort (http_Request.RemoteAddr req))) = Some e
            \<longrightarrow> GetRemoteAddr s req = (http_Request.RemoteAddr req, None))
       \<and> (\<forall>h p. http_Request.RemoteAddr req = h @ '':'' @ p
               \<and> set h \<inter> {CHR '':'', CHR ''['', CHR '']''} = {}
               \<and> set p \<inter> {CHR '':'', CHR ''['', CHR '']''} = {}
            \<longrightarrow> GetRemoteAddr s req = (h, None))
       \<and> (CHR '':'' \<notin> set (http_Request.RemoteAddr req)
            \<longrightarrow> GetRemoteAddr s req = (http_Request.RemoteAddr req, None))"
proof -
  have eq: "GetRemoteAddr s req =
      (case SplitHostPort (http_Request.RemoteAddr req) of
         (host, port, err) \<Rightarrow>
           if err \<noteq> None then (http_Request.RemoteAddr req, None) else (host, err))"
    using assms by (auto simp: GetRemoteAddr_def Let_def split: prod.splits)
  show ?thesis
    by (auto simp: eq SplitHostPort_no_colon SplitHostPort_plain [simplified] split: prod.splits)
qed

text \<open>
  The peer address \<open>192.0.2.5:54321\<close> resolves to \<open>192.0.2.5\<close>, and so does the peer
  address \<open>192.0.2.5\<close>.
\<close>

theorem GetRemoteAddr_peer_address_witness:
  "GetRemoteAddr server0 request0 = (''192.0.2.5'', None)
   \<and> GetRemoteAddr server0 (request0\<lparr>http_Request.RemoteAddr := ''192.0.2.5''\<rparr>)
       = (''192.0.2.5'', None)"
proof -
  let ?bare = "request0\<lparr>http_Request.RemoteAddr := ''192.0.2.5''\<rparr>"
  have a: "\<not> (Values_Get (Query (http_Request.URL request0)) ''host'' \<noteq> []
              \<and> Debug (Config server0))"
    by (simp add: server0_def)
  have b: "IPHeader (Config server0) = []
       \<or> Header_Get (http_Request.Header request0) (IPHeader (Config server0)) = []"
    by (simp add: server0_def)
  have a': "\<not> (Values_Get (Query (http_Request.URL ?bare)) ''host'' \<noteq> []
               \<and> Debug (Config server0))"
    by (simp add: server0_def)
  have b': "IPHeader (Config server0) = []
       \<or> Header_Get (http_Request.Header ?bare) (IPHeader (Config server0)) = []"
    by (simp add: server0_def)
  have hp: "http_Request.RemoteAddr request0 = ''192.0.2.5'' @ '':'' @ ''54321''
        \<and> set ''192.0.2.5'' \<inter> {CHR '':'', CHR ''['', CHR '']''} = {}
        \<and> set ''54321'' \<inter> {CHR '':'', CHR ''['', CHR '']''} = {}"
    by (simp add: request0_def)
  from GetRemoteAddr_peer_address [OF a b]
  have "\<forall>h p. http_Request.RemoteAddr request0 = h @ '':'' @ p
               \<and> set h \<inter> {CHR '':'', CHR ''['', CHR '']''} = {}
               \<and> set p \<inter> {CHR '':'', CHR ''['', CHR '']''} = {}
            \<longrightarrow> GetRemoteAddr server0 request0 = (h, None)"
    by (rule conjunct1 [OF conjunct2 [OF conjunct2]])
  from this [rule_format, OF hp]
  have 1: "GetRemoteAddr server0 request0 = (''192.0.2.5'', None)" .
  have "CHR '':'' \<notin> set (http_Request.RemoteAddr ?bare)"
    by simp
  with conjunct2 [OF conjunct2 [OF conjunct2 [OF GetRemoteAddr_peer_address [OF a' b']]]]
  have 2: "GetRemoteAddr server0 ?bare = (''192.0.2.5'', None)"
    by simp
  from 1 2 show ?thesis by simp
qed

subsection \<open>The error result\<close>

text \<open>
  Claim C10. \<open>GetRemoteAddr\<close> returns a nil error for every server configuration and
  every request: on the debug branch, when \<open>SplitHostPort\<close> fails, and when it succeeds
  (the error returned there is the nil error of \<open>SplitHostPort\<close>).
\<close>

theorem GetRemoteAddr_error_nil: "snd (GetRemoteAddr s req) = None"
  by (simp add: GetRemoteAddr_def Let_def split: prod.splits)

theorem GetRemoteAddr_error_nil_witness:
  "snd (GetRemoteAddr server_debug request_override) = None"
  by (rule GetRemoteAddr_error_nil)

section \<open>Properties of the response writer and of template execution\<close>

lemma Write_fields:
  "body (Write c w) = body w @ [c]"
  "header (Write c w) = header w"
  "status (Write c w) = (case status w of None \<Rightarrow> Some 200 | Some k \<Rightarrow> Some k)"
  "sent (Write c w) = (case status w of None \<Rightarrow> Some (header w) | Some k \<Rightarrow> sent w)"
  by (simp_all add: Write_def WriteHeader_def Let_def split: option.splits)

lemma WriteHeader_fields:
  "body (WriteHeader k w) = body w"
  "header (WriteHeader k w) = header w"
  "status (WriteHeader k w) = (case status w of None \<Rightarrow> Some k | Some j \<Rightarrow> Some j)"
  "sent (WriteHeader k w) = (case status w of None \<Rightarrow> Some (header w) | Some j \<Rightarrow> sent w)"
  by (simp_all add: WriteHeader_def split: option.splits)

lemma SetHeader_fields:
  "body (SetHeader k v w) = body w"
  "status (SetHeader k v w) = status w"
  "sent (SetHeader k v w) = sent w"
  "header (SetHeader k v w) = (header w)(CanonicalMIMEHeaderKey k \<mapsto> [v])"
  by (simp_all add: SetHeader_def Header_Set_def)

lemma body_foldl_Write: "body (foldl (\<lambda>w c. Write c w) w out) = body w @ out"
  by (induction out arbitrary: w) (simp_all add: Write_fields)

lemma header_foldl_Write: "header (foldl (\<lambda>w c. Write c w) w out) = header w"
  by (induction out arbitrary: w) (simp_all add: Write_fields)

lemma status_foldl_Write:
  "status (foldl (\<lambda>w c. Write c w) w out) =
     (if out = [] then status w else (case status w of None \<Rightarrow> Some 200 | Some c \<Rightarrow> Some c))"
  by (induction out arbitrary: w) (auto simp add: Write_fields split: option.splits)

lemma sent_foldl_Write:
  "sent (foldl (\<lambda>w c. Write c w) w out) =
     (if out = [] then sent w else (case status w of None \<Rightarrow> Some (header w) | Some c \<Rightarrow> sent w))"
  by (induction out arbitrary: w) (auto simp add: Write_fields split: option.splits)

lemma Canonical_keys:
  "CanonicalMIMEHeaderKey ''Content-Type'' = ''Content-Type''"
  "CanonicalMIMEHeaderKey ''Access-Control-Allow-Origin'' = ''Access-Control-Allow-Origin''"
  "CanonicalMIMEHeaderKey ''Vary'' = ''Vary''"
  "CanonicalMIMEHeaderKey ''User-Agent'' = ''User-Agent''"
  by (simp_all add: CanonicalMIMEHeaderKey_def validHeaderFieldByte_def toUpper_def toLower_def
        Let_def)

lemma Execute_fields:
  "body (fst (Execute t w data)) = body w @ fst (walkList data (Tree t))"
  "header (fst (Execute t w data)) = header w"
  "status (fst (Execute t w data)) =
     (if fst (walkList data (Tree t)) = [] then status w
      else (case status w of None \<Rightarrow> Some 200 | Some c \<Rightarrow> Some c))"
  "sent (fst (Execute t w data)) =
     (if fst (walkList data (Tree t)) = [] then sent w
      else (case status w of None \<Rightarrow> Some (header w) | Some c \<Rightarrow> sent w))"
  "snd (Execute t w data) = map_option (ExecError (name t)) (snd (walkList data (Tree t)))"
  by (simp_all add: Execute_def body_foldl_Write header_foldl_Write status_foldl_Write
        sent_foldl_Write split: prod.splits)

subsection \<open>What cliTmpl writes\<close>

lemma walkRange_names:
  "walkRange (map VString ns) [TextNode ''DNS: '', ActionNode DotNode, TextNode nl]
     = (concat (map (\<lambda>n. [Bytes ''DNS: '', Bytes n, Bytes nl]) ns), None)"
  by (induction ns) (simp_all add: printValue_def)

text \<open>
  With the three records that the template dereferences present, the execution succeeds
  and writes the report; the coordinates are written when \<open>and (ne Lat 0.0) (ne Long 0.0)\<close>
  is true.
\<close>

lemma walkList_cliTmpl:
  assumes "RemoteAddrReverse r = Some d" and "RemoteAddrWhois r = Some x" and "Location r = Some l"
  shows "walkList (Response_val (Some r)) (Tree cliTmpl) =
    ([Bytes ''IP: '', Bytes (Response.RemoteAddr r), Bytes ''\<newline>'']
     @ concat (map (\<lambda>n. [Bytes ''DNS: '', Bytes n, Bytes ''\<newline>'']) (Names d))
     @ [Bytes ''\<newline>WHOIS:\<newline>'', Bytes (Body x),
        Bytes ''\<newline>\<newline>Location: '',
        Bytes (City l), Bytes '' '', Bytes (Region l), Bytes '' '', Bytes (Country l)]
     @ (if Lat l \<noteq> 0 \<and> Long l \<noteq> 0
        then [Bytes '' ('', Fprint (VFloat (Lat l)), Bytes '', '',
              Fprint (VFloat (Long l)), Bytes '') '']
        else [])
     @ [Bytes ''\<newline>\<newline>ID: '', Bytes (RequestID r), Bytes ''\<newline>''], None)"
  using assms
  by (simp add: cliTmpl_def Response_val_def dns_val_def whois_val_def location_val_def
      walkRange_names evalCall_def printValue_def)

text \<open>The template starts with literal text, so every execution writes something.\<close>

lemma walkList_cliTmpl_first:
  "\<exists>out e. walkList data (Tree cliTmpl) = (Bytes ''IP: '' # out, e)"
  by (auto simp add: cliTmpl_def split: prod.splits option.splits)

lemma name_cliTmpl: "name cliTmpl = ''test''"
  by (simp add: cliTmpl_def)

lemma walkList_nogeo:
  "walkList (Response_val (Some response_nogeo)) (Tree cliTmpl) =
     ([Bytes ''IP: '', Bytes ''192.0.2.5'', Bytes ''\<newline>'',
       Bytes ''DNS: '', Bytes ''host.example.'', Bytes ''\<newline>'',
       Bytes ''\<newline>WHOIS:\<newline>'', Bytes ''NetName: TEST-NET-1'',
       Bytes ''\<newline>\<newline>Location: ''],
      Some ''nil pointer evaluating *location.Response.City'')"
  by (simp add: response_nogeo_def response0_def cliTmpl_def Response_val_def dns_val_def
      whois_val_def location_val_def printValue_def)

lemma walkList_nodns:
  "walkList (Response_val (Some response_nodns)) (Tree cliTmpl) =
     ([Bytes ''IP: '', Bytes ''192.0.2.5'', Bytes ''\<newline>''],
      Some ''nil pointer evaluating *dns.Response.Names'')"
  by (simp add: response_nodns_def response0_def cliTmpl_def Response_val_def dns_val_def
      whois_val_def location_val_def printValue_def)

subsection \<open>WriteText and WriteJSON, field by field\<close>

lemma WriteText_unfold:
  "WriteText s w req tmpl data err =
     (case err of
        Some e \<Rightarrow> Write (Bytes (err_Error e))
                   (WriteHeader 500 (SetHeader ''Content-Type'' ''text/plain'' w))
      | None \<Rightarrow>
          (case snd (Execute tmpl (SetHeader ''Content-Type'' ''text/plain'' w) data) of
             Some e \<Rightarrow> Write (Bytes (err_Error e))
                        (WriteHeader 500
                           (fst (Execute tmpl (SetHeader ''Content-Type'' ''text/plain'' w) data)))
           | None \<Rightarrow> fst (Execute tmpl (SetHeader ''Content-Type'' ''text/plain'' w) data)))"
  by (simp add: WriteText_def Let_def split: option.splits prod.splits)

lemma body_WriteText:
  "body (WriteText s w req tmpl data err) =
     (case err of
        Some e \<Rightarrow> body w @ [Bytes (err_Error e)]
      | None \<Rightarrow> (case snd (walkList data (Tree tmpl)) of
                    None \<Rightarrow> body w @ fst (walkList data (Tree tmpl))
                  | Some m \<Rightarrow> body w @ fst (walkList data (Tree tmpl))
                                @ [Bytes (err_Error (ExecError (name tmpl) m))]))"
  by (simp add: WriteText_unfold Write_fields WriteHeader_fields SetHeader_fields Execute_fields
        split: option.splits)

lemma header_WriteText:
  "header (WriteText s w req tmpl data err) = (header w)(''Content-Type'' \<mapsto> [''text/plain''])"
  by (simp add: WriteText_unfold Write_fields WriteHeader_fields SetHeader_fields Execute_fields
        Canonical_keys split: option.splits)

lemma status_WriteText:
  "status w = None \<Longrightarrow>
   status (WriteText s w req tmpl data err) =
     (case err of
        Some e \<Rightarrow> Some 500
      | None \<Rightarrow> (if fst (walkList data (Tree tmpl)) \<noteq> [] then Some 200
                  else if snd (walkList data (Tree tmpl)) \<noteq> None then Some 500
                  else None))"
  by (simp add: WriteText_unfold Write_fields WriteHeader_fields SetHeader_fields Execute_fields
        split: option.splits)

lemma header_WriteJSON:
  "header (WriteJSON s w req obj err) =
     (header w)(''Content-Type'' \<mapsto> [''application/json''],
                ''Access-Control-Allow-Origin'' \<mapsto>
                   [(if TLS req \<noteq> None then ''https://'' else ''http://'') @ Host (Config s)],
                ''Vary'' \<mapsto> [''Origin''])"
  by (cases err)
     (simp_all add: WriteJSON_def Write_fields WriteHeader_fields SetHeader_fields Canonical_keys)

lemma body_WriteJSON:
  "body (WriteJSON s w req obj err) =
     body w @ [JSON (case err of Some e \<Rightarrow> ptr_ErrResponse \<lparr>Error = err_Error e\<rparr> | None \<Rightarrow> obj)]"
  by (cases err) (simp_all add: WriteJSON_def Write_fields WriteHeader_fields SetHeader_fields)

lemma status_WriteJSON:
  "status w = None \<Longrightarrow>
   status (WriteJSON s w req obj err) = (case err of Some e \<Rightarrow> Some 500 | None \<Rightarrow> Some 200)"
  by (cases err) (simp_all add: WriteJSON_def Write_fields WriteHeader_fields SetHeader_fields)

text \<open>
  The header that \<open>WriteJSON\<close> sends. Without an error the three entries are set before
  the first \<open>Write\<close> and are sent. With an error \<open>WriteHeader(500)\<close> comes first, and the
  header is sent as it was on entry.
\<close>

lemma sent_WriteJSON:
  "status w = None \<Longrightarrow>
   sent (WriteJSON s w req obj err) =
     (case err of
        Some e \<Rightarrow> Some (header w)
      | None \<Rightarrow> Some ((header w)(''Content-Type'' \<mapsto> [''application/json''],
                ''Access-Control-Allow-Origin'' \<mapsto>
                   [(if TLS req \<noteq> None then ''https://'' else ''http://'') @ Host (Config s)],
                ''Vary'' \<mapsto> [''Origin''])))"
  by (cases err)
     (simp_all add: WriteJSON_def Write_fields WriteHeader_fields SetHeader_fields Canonical_keys)

lemma addResponseHeaders_fields:
  "body (addResponseHeaders opt ssl w) = body w"
  "status (addResponseHeaders opt ssl w) = status w"
  "sent (addResponseHeaders opt ssl w) = sent w"
proof -
  have "body (foldl (\<lambda>w (k, v). SetHeader k v w) w kvs) = body w
      \<and> status (foldl (\<lambda>w (k, v). SetHeader k v w) w kvs) = status w
      \<and> sent (foldl (\<lambda>w (k, v). SetHeader k v w) w kvs) = sent w" for kvs
    by (induction kvs arbitrary: w) (auto simp: SetHeader_fields)
  then show "body (addResponseHeaders opt ssl w) = body w"
    "status (addResponseHeaders opt ssl w) = status w"
    "sent (addResponseHeaders opt ssl w) = sent w"
    by (simp_all add: addResponseHeaders_def)
qed

lemma cleanPath_json: "cleanPath ''/json'' = ''/json''"
  by (simp add: cleanPath_def path_Clean_def)

lemma isSSL_TLS: "TLS r \<noteq> None \<Longrightarrow> isSSL opt r"
  by (simp add: isSSL_def)

lemma isCli_curl: "isCli request_curl_json"
  by (simp add: isCli_def request_curl_json_def Header_Get_def Canonical_keys)

lemma not_isCli_browser: "\<not> isCli request_browser_json"
  by (simp add: isCli_def request_browser_json_def Header_Get_def Canonical_keys)

text \<open>Executing a template never writes a JSON document.\<close>

lemma walk_no_JSON:
  "list_all (\<lambda>c. \<not> is_JSON c) (fst (walk dot n))"
  "list_all (\<lambda>c. \<not> is_JSON c) (fst (walkList dot ns))"
  "list_all (\<lambda>c. \<not> is_JSON c) (fst (walkRange xs ns))"
proof (induction dot n and dot ns and xs ns rule: walk_walkList_walkRange.induct)
  case (2 dot e)
  then show ?case
    by (simp add: printValue_def split: sum.splits val.splits)
next
  case (3 dot c nodes)
  then show ?case
    by (simp split: sum.splits)
next
  case (4 dot e nodes)
  then show ?case
    by (simp split: sum.splits val.splits)
next
  case (6 dot n ns)
  then show ?case
    by (auto split: prod.splits option.splits)
next
  case (8 x xs nodes)
  then show ?case
    by (auto split: prod.splits option.splits)
qed simp_all

section \<open>Properties of the JSON path\<close>

text \<open>
  Claim C1, as amended. For every request for which \<open>HandleMyIP\<close> returns an error or a
  non-nil response, \<open>jsonHandler\<close> writes exactly one piece to the body, a JSON document
  that is a \<open>Response\<close> document or an \<open>ErrResponse\<close> document and never both. When
  \<open>HandleMyIP\<close> returns an error, the status is 500 and the document is the
  \<open>ErrResponse\<close> holding the text of that error; when it returns none, the status is 200
  and the document is the \<open>Response\<close>.
\<close>

theorem jsonHandler_one_body:
  assumes "status w = None"
      and "handleMyIP req = (response, err)"
      and "err = None \<longrightarrow> response \<noteq> None"
  shows "(\<exists>c. body (jsonHandler app handleMyIP addInsights w req) = body w @ [c]
            \<and> (is_Response c \<longleftrightarrow> \<not> is_ErrResponse c))
       \<and> (\<forall>e. err = Some e \<longrightarrow>
             status (jsonHandler app handleMyIP addInsights w req) = Some 500
             \<and> body (jsonHandler app handleMyIP addInsights w req)
                 = body w @ [JSON (ptr_ErrResponse \<lparr>Error = err_Error e\<rparr>)])
       \<and> (err = None \<longrightarrow>
             status (jsonHandler app handleMyIP addInsights w req) = Some 200
             \<and> body (jsonHandler app handleMyIP addInsights w req)
                 = body w @ [JSON (ptr_Response response)])"
  using assms
  by (cases err) (auto simp: jsonHandler_def body_WriteJSON status_WriteJSON)

text \<open>
  A successful lookup gives status 200 and the \<open>Response\<close>; a failed one gives status 500
  and the \<open>ErrResponse\<close> with the error text.
\<close>

theorem jsonHandler_one_body_witness:
  "status (jsonHandler server0 (handleMyIP_ok response0) addInsights0 newWriter request0) = Some 200
   \<and> body (jsonHandler server0 (handleMyIP_ok response0) addInsights0 newWriter request0)
       = [JSON (ptr_Response (Some response0))]
   \<and> status (jsonHandler server0 (handleMyIP_fails ''lookup failed'') addInsights0 newWriter request0)
       = Some 500
   \<and> body (jsonHandler server0 (handleMyIP_fails ''lookup failed'') addInsights0 newWriter request0)
       = [JSON (ptr_ErrResponse \<lparr>Error = ''lookup failed''\<rparr>)]"
proof -
  have w: "status newWriter = None"
    by (simp add: newWriter_def)
  have ok: "handleMyIP_ok response0 request0 = (Some response0, None)"
    by (simp add: handleMyIP_ok_def)
  have ok': "(None :: error option) = None \<longrightarrow> Some response0 \<noteq> None"
    by simp
  have bad: "handleMyIP_fails ''lookup failed'' request0
               = (None, Some (errorString ''lookup failed''))"
    by (simp add: handleMyIP_fails_def)
  have bad': "Some (errorString ''lookup failed'') = None \<longrightarrow> (None :: Response option) \<noteq> None"
    by simp
  from jsonHandler_one_body [where handleMyIP = "handleMyIP_ok response0" and req = request0
              and app = server0 and addInsights = addInsights0, OF w ok ok']
       jsonHandler_one_body [where handleMyIP = "handleMyIP_fails ''lookup failed''"
              and req = request0 and app = server0 and addInsights = addInsights0, OF w bad bad']
  show ?thesis by (simp add: newWriter_def)
qed

text \<open>
  Claim C1 as stated fails when \<open>HandleMyIP\<close> returns a nil response with a nil error,
  which neither handler tests for: the status is 200 and the body is the encoding of the
  nil pointer, neither a \<open>Response\<close> document nor an \<open>ErrResponse\<close> document.
\<close>

theorem jsonHandler_one_body_counterexample:
  "handleMyIP_nil request0 = (None, None)
   \<and> status (jsonHandler server0 handleMyIP_nil addInsights0 newWriter request0) = Some 200
   \<and> body (jsonHandler server0 handleMyIP_nil addInsights0 newWriter request0)
       = [JSON (ptr_Response None)]
   \<and> \<not> is_Response (JSON (ptr_Response None))
   \<and> \<not> is_ErrResponse (JSON (ptr_Response None))"
proof -
  have w: "status newWriter = None" "body newWriter = []"
    by (simp_all add: newWriter_def)
  show ?thesis
    by (simp add: handleMyIP_nil_def jsonHandler_def status_WriteJSON body_WriteJSON w)
qed

text \<open>The same for every request and writer.\<close>

lemma jsonHandler_nil_nil:
  assumes "handleMyIP req = (None, None)"
  shows "body (jsonHandler app handleMyIP addInsights w req) = body w @ [JSON (ptr_Response None)]"
  using assms by (simp add: jsonHandler_def body_WriteJSON)

text \<open>
  Claim C9: on the error path the code does not do what the claim says. \<open>WriteJSON\<close>
  called with an error sends status 500 with the header as it was on entry (here empty):
  \<open>Content-Type\<close>, \<open>Access-Control-Allow-Origin\<close> and \<open>Vary\<close> are put into the header map
  only afterwards. Without an error the three entries are sent (\<open>sent_WriteJSON\<close>).
\<close>

theorem WriteJSON_error_headers_not_sent:
  "status (WriteJSON server0 newWriter request0 (ptr_Response None)
             (Some (errorString ''lookup failed''))) = Some 500
   \<and> sent (WriteJSON server0 newWriter request0 (ptr_Response None)
             (Some (errorString ''lookup failed''))) = Some Map.empty
   \<and> header (WriteJSON server0 newWriter request0 (ptr_Response None)
             (Some (errorString ''lookup failed''))) ''Access-Control-Allow-Origin''
       = Some [''http://ip.example.com'']"
proof -
  have w: "status newWriter = None" "header newWriter = Map.empty"
    by (simp_all add: newWriter_def)
  show ?thesis
    by (simp add: status_WriteJSON sent_WriteJSON header_WriteJSON w)
       (simp add: server0_def request0_def)
qed

section \<open>Properties of the routes\<close>

text \<open>
  Claim C5, as amended. Take a request for the path \<open>/json\<close>. When the server is not in
  debug mode and the request is not SSL, the security middleware answers with a redirect
  and no handler is called. Otherwise: when the \<open>User-Agent\<close> begins with neither
  \<open>curl/\<close> nor \<open>Wget/\<close>, the request is served by \<open>jsonHandler\<close>, and what is written to
  the body is one JSON document, the \<open>ErrResponse\<close> when \<open>HandleMyIP\<close> returned an error
  and the \<open>Response\<close> that it returned otherwise; when the \<open>User-Agent\<close> begins with one
  of the two prefixes, the request is served by \<open>cliHandler\<close> and no JSON document is
  written.
\<close>

theorem ServeHTTP_json_path:
  assumes "Path (http_Request.URL req) = ''/json''"
      and "handleMyIP req = (response, err)"
      and "w' = addResponseHeaders (secureOptions config) (isSSL (secureOptions config) req) w"
  shows "(\<not> Debug config \<and> \<not> isSSL (secureOptions config) req \<longrightarrow>
            ServeHTTP app config handleMyIP addInsights w req = Redirected 301)
       \<and> ((Debug config \<or> isSSL (secureOptions config) req) \<and> \<not> isCli req \<longrightarrow>
            ServeHTTP app config handleMyIP addInsights w req
              = Written (jsonHandler app handleMyIP addInsights w' req)
            \<and> body (jsonHandler app handleMyIP addInsights w' req)
                = body w @ [JSON (case err of
                                    Some e \<Rightarrow> ptr_ErrResponse \<lparr>Error = err_Error e\<rparr>
                                  | None \<Rightarrow> ptr_Response response)])
       \<and> ((Debug config \<or> isSSL (secureOptions config) req) \<and> isCli req \<longrightarrow>
            ServeHTTP app config handleMyIP addInsights w req
              = Written (cliHandler app handleMyIP w' req)
            \<and> (\<exists>out. body (cliHandler app handleMyIP w' req) = body w @ out
                      \<and> list_all (\<lambda>c. \<not> is_JSON c) out))"
proof -
  have opts: "SSLRedirect (secureOptions config)"
             "IsDevelopment (secureOptions config) = Debug config"
    by (simp_all add: secureOptions_def)
  have w': "body w' = body w"
    by (simp add: assms(3) addResponseHeaders_fields)
  have cli: "\<exists>out. body (cliHandler app handleMyIP w' req) = body w @ out
                  \<and> list_all (\<lambda>c. \<not> is_JSON c) out"
    using assms(2) walk_no_JSON(2) [of "Response_val response" "Tree cliTmpl"]
    by (cases err; cases "snd (walkList (Response_val response) (Tree cliTmpl))")
       (simp_all add: cliHandler_def body_WriteText w')
  have json: "body (jsonHandler app handleMyIP addInsights w' req)
                = body w @ [JSON (case err of
                                    Some e \<Rightarrow> ptr_ErrResponse \<lparr>Error = err_Error e\<rparr>
                                  | None \<Rightarrow> ptr_Response response)]"
    using assms(2) by (cases err) (simp_all add: jsonHandler_def body_WriteJSON w')
  have route: "Router_Match routes req = Some (if isCli req then H_cliHandler else H_jsonHandler)"
    using assms(1) by (simp add: routes_def)
  have serve: "ServeHTTP app config handleMyIP addInsights w req =
      (if \<not> isSSL (secureOptions config) req \<and> \<not> Debug config then Redirected 301
       else if isCli req then Written (cliHandler app handleMyIP w' req)
       else Written (jsonHandler app handleMyIP addInsights w' req))"
    by (simp add: ServeHTTP_def assms(1) cleanPath_json route secure_Handler_def opts assms(3))
  show ?thesis
    using cli json by (auto simp: serve)
qed

text \<open>
  Over TLS a browser's request for \<open>/json\<close> is served by \<open>jsonHandler\<close> and the body is
  the \<open>Response\<close>; curl's request is served by \<open>cliHandler\<close>; the browser's request over
  plain HTTP is redirected.
\<close>

theorem ServeHTTP_json_path_witness:
  "ServeHTTP server0 (Config server0) (handleMyIP_ok response0) addInsights0 newWriter
       request_browser_json
     = Written (jsonHandler server0 (handleMyIP_ok response0) addInsights0
                 (addResponseHeaders (secureOptions (Config server0)) True newWriter)
                 request_browser_json)
   \<and> body (jsonHandler server0 (handleMyIP_ok response0) addInsights0
             (addResponseHeaders (secureOptions (Config server0)) True newWriter)
             request_browser_json)
       = [JSON (ptr_Response (Some response0))]
   \<and> ServeHTTP server0 (Config server0) (handleMyIP_ok response0) addInsights0 newWriter
       request_curl_json
     = Written (cliHandler server0 (handleMyIP_ok response0)
                 (addResponseHeaders (secureOptions (Config server0)) True newWriter)
                 request_curl_json)
   \<and> ServeHTTP server0 (Config server0) (handleMyIP_ok response0) addInsights0 newWriter
       request_browser_json_plain
     = Redirected 301"
proof -
  let ?opt = "secureOptions (Config server0)"
  have b: "Path (http_Request.URL request_browser_json) = ''/json''"
    by (simp add: request_browser_json_def)
  have c: "Path (http_Request.URL request_curl_json) = ''/json''"
    by (simp add: request_curl_json_def)
  have p: "Path (http_Request.URL request_browser_json_plain) = ''/json''"
    by (simp add: request_browser_json_plain_def request_browser_json_def)
  have hb: "handleMyIP_ok response0 request_browser_json = (Some response0, None)"
    by (simp add: handleMyIP_ok_def)
  have hc: "handleMyIP_ok response0 request_curl_json = (Some response0, None)"
    by (simp add: handleMyIP_ok_def)
  have hp: "handleMyIP_ok response0 request_browser_json_plain = (Some response0, None)"
    by (simp add: handleMyIP_ok_def)
  have sb: "isSSL ?opt request_browser_json"
    by (simp add: isSSL_TLS request_browser_json_def)
  have sc: "isSSL ?opt request_curl_json"
    by (simp add: isSSL_TLS request_curl_json_def)
  have sp: "\<not> isSSL ?opt request_browser_json_plain"
    by (simp add: isSSL_def secureOptions_def request_browser_json_plain_def
        request_browser_json_def request0_def Header_Get_def)
  have d: "\<not> Debug (Config server0)"
    by (simp add: server0_def)
  have 1: "ServeHTTP server0 (Config server0) (handleMyIP_ok response0) addInsights0 newWriter
               request_browser_json
             = Written (jsonHandler server0 (handleMyIP_ok response0) addInsights0
                         (addResponseHeaders ?opt True newWriter) request_browser_json)
           \<and> body (jsonHandler server0 (handleMyIP_ok response0) addInsights0
                     (addResponseHeaders ?opt True newWriter) request_browser_json)
               = [JSON (ptr_Response (Some response0))]"
    using ServeHTTP_json_path [where handleMyIP = "handleMyIP_ok response0"
             and req = request_browser_json and app = server0 and config = "Config server0"
             and addInsights = addInsights0 and w = newWriter, OF b hb refl]
          not_isCli_browser sb
    by (simp add: newWriter_def)
  have 2: "ServeHTTP server0 (Config server0) (handleMyIP_ok response0) addInsights0 newWriter
               request_curl_json
             = Written (cliHandler server0 (handleMyIP_ok response0)
                         (addResponseHeaders ?opt True newWriter) request_curl_json)"
    using ServeHTTP_json_path [where handleMyIP = "handleMyIP_ok response0"
             and req = request_curl_json and app = server0 and config = "Config server0"
             and addInsights = addInsights0 and w = newWriter, OF c hc refl]
          isCli_curl sc
    by simp
  have 3: "ServeHTTP server0 (Config server0) (handleMyIP_ok response0) addInsights0 newWriter
               request_browser_json_plain = Redirected 301"
    using ServeHTTP_json_path [where handleMyIP = "handleMyIP_ok response0"
             and req = request_browser_json_plain and app = server0
             and config = "Config server0" and addInsights = addInsights0 and w = newWriter,
             OF p hp refl]
          sp d
    by simp
  from 1 2 3 show ?thesis by simp
qed

text \<open>
  Claim C5 as stated fails in two ways. The request \<open>GET /json\<close> with
  \<open>User-Agent: curl/7.68.0\<close>, over TLS, matches the \<open>isCli\<close> route, which is registered
  first, and receives the plain-text report with \<open>Content-Type: text/plain\<close>. The
  browser's request \<open>GET /json\<close> over plain HTTP, with the server not in debug mode,
  is redirected and receives no JSON.
\<close>

theorem ServeHTTP_json_path_counterexample:
  "Path (http_Request.URL request_curl_json) = ''/json''
   \<and> ServeHTTP server0 (Config server0) (handleMyIP_ok response0) addInsights0 newWriter
         request_curl_json
       = Written (cliHandler server0 (handleMyIP_ok response0)
                   (addResponseHeaders (secureOptions (Config server0)) True newWriter)
                   request_curl_json)
   \<and> header (cliHandler server0 (handleMyIP_ok response0)
               (addResponseHeaders (secureOptions (Config server0)) True newWriter)
               request_curl_json) ''Content-Type'' = Some [''text/plain'']
   \<and> body (cliHandler server0 (handleMyIP_ok response0)
               (addResponseHeaders (secureOptions (Config server0)) True newWriter)
               request_curl_json)
       = [Bytes ''IP: '', Bytes ''192.0.2.5'', Bytes ''\<newline>'',
          Bytes ''DNS: '', Bytes ''host.example.'', Bytes ''\<newline>'',
          Bytes ''\<newline>WHOIS:\<newline>'', Bytes ''NetName: TEST-NET-1'',
          Bytes ''\<newline>\<newline>Location: '',
          Bytes ''Nanyuki'', Bytes '' '', Bytes ''Laikipia'', Bytes '' '', Bytes ''KE'',
          Bytes ''\<newline>\<newline>ID: '', Bytes ''req-1'', Bytes ''\<newline>'']
   \<and> Path (http_Request.URL request_browser_json_plain) = ''/json''
   \<and> ServeHTTP server0 (Config server0) (handleMyIP_ok response0) addInsights0 newWriter
         request_browser_json_plain
       = Redirected 301"
proof -
  let ?opt = "secureOptions (Config server0)"
  have r: "RemoteAddrReverse response0 = Some \<lparr>Names = [''host.example.'']\<rparr>"
          "RemoteAddrWhois response0 = Some \<lparr>Body = ''NetName: TEST-NET-1''\<rparr>"
          "Location response0 = Some \<lparr>City = ''Nanyuki'', Region = ''Laikipia'', Country = ''KE'',
                                  Lat = 0, Long = 36.8\<rparr>"
    by (simp_all add: response0_def)
  have c: "Path (http_Request.URL request_curl_json) = ''/json''"
    by (simp add: request_curl_json_def)
  have p: "Path (http_Request.URL request_browser_json_plain) = ''/json''"
    by (simp add: request_browser_json_plain_def request_browser_json_def)
  have sc: "isSSL ?opt request_curl_json"
    by (simp add: isSSL_TLS request_curl_json_def)
  have sp: "\<not> isSSL ?opt request_browser_json_plain"
    by (simp add: isSSL_def secureOptions_def request_browser_json_plain_def
        request_browser_json_def request0_def Header_Get_def)
  have opts: "SSLRedirect ?opt" "\<not> IsDevelopment ?opt"
    by (simp_all add: secureOptions_def server0_def)
  have w: "body (addResponseHeaders ?opt True newWriter) = []"
    by (simp add: addResponseHeaders_fields newWriter_def)
  have 1: "ServeHTTP server0 (Config server0) (handleMyIP_ok response0) addInsights0 newWriter
             request_curl_json
           = Written (cliHandler server0 (handleMyIP_ok response0)
                       (addResponseHeaders ?opt True newWriter) request_curl_json)"
    using isCli_curl sc
    by (simp add: ServeHTTP_def c cleanPath_json routes_def secure_Handler_def opts)
  have 2: "ServeHTTP server0 (Config server0) (handleMyIP_ok response0) addInsights0 newWriter
             request_browser_json_plain = Redirected 301"
    using sp
    by (simp add: ServeHTTP_def p cleanPath_json routes_def secure_Handler_def opts
        split: handler.splits option.splits)
  have 3: "body (cliHandler server0 (handleMyIP_ok response0)
               (addResponseHeaders ?opt True newWriter) request_curl_json)
       = [Bytes ''IP: '', Bytes ''192.0.2.5'', Bytes ''\<newline>'',
          Bytes ''DNS: '', Bytes ''host.example.'', Bytes ''\<newline>'',
          Bytes ''\<newline>WHOIS:\<newline>'', Bytes ''NetName: TEST-NET-1'',
          Bytes ''\<newline>\<newline>Location: '',
          Bytes ''Nanyuki'', Bytes '' '', Bytes ''Laikipia'', Bytes '' '', Bytes ''KE'',
          Bytes ''\<newline>\<newline>ID: '', Bytes ''req-1'', Bytes ''\<newline>'']"
    by (simp add: cliHandler_def handleMyIP_ok_def body_WriteText walkList_cliTmpl [OF r] w)
       (simp add: response0_def)
  have 4: "header (cliHandler server0 (handleMyIP_ok response0)
               (addResponseHeaders ?opt True newWriter) request_curl_json) ''Content-Type''
             = Some [''text/plain'']"
    by (simp add: cliHandler_def handleMyIP_ok_def header_WriteText)
  from c p 1 2 3 4 show ?thesis by simp
qed

section \<open>Properties of the plain-text path\<close>

subsection \<open>The location line\<close>

text \<open>
  Claim C6, as amended. When the plain-text report is rendered (\<open>HandleMyIP\<close> returned no
  error and the reverse DNS, WHOIS and location records are present), the location line
  is the city, the region and the country, followed by the coordinates in the fixed form
  \<open> (Lat, Long) \<close> exactly when latitude and longitude are both non-zero; when either of
  them is 0.0 the coordinates are left out.
\<close>

theorem cliHandler_location_line:
  assumes "handleMyIP req = (Some r, None)"
      and "RemoteAddrReverse r = Some d" and "RemoteAddrWhois r = Some x" and "Location r = Some l"
  shows "body (cliHandler app handleMyIP w req) =
     body w
     @ [Bytes ''IP: '', Bytes (Response.RemoteAddr r), Bytes ''\<newline>'']
     @ concat (map (\<lambda>n. [Bytes ''DNS: '', Bytes n, Bytes ''\<newline>'']) (Names d))
     @ [Bytes ''\<newline>WHOIS:\<newline>'', Bytes (Body x),
        Bytes ''\<newline>\<newline>Location: '',
        Bytes (City l), Bytes '' '', Bytes (Region l), Bytes '' '', Bytes (Country l)]
     @ (if Lat l \<noteq> 0 \<and> Long l \<noteq> 0
        then [Bytes '' ('', Fprint (VFloat (Lat l)), Bytes '', '',
              Fprint (VFloat (Long l)), Bytes '') '']
        else [])
     @ [Bytes ''\<newline>\<newline>ID: '', Bytes (RequestID r), Bytes ''\<newline>'']"
  using assms(1) by (simp add: cliHandler_def body_WriteText walkList_cliTmpl [OF assms(2-4)])

text \<open>For Nairobi, latitude -1.29 and longitude 36.82, the coordinates are written.\<close>

theorem cliHandler_location_line_witness:
  "body (cliHandler server0 (handleMyIP_ok response_nairobi) newWriter request0) =
     [Bytes ''IP: '', Bytes ''192.0.2.5'', Bytes ''\<newline>'',
      Bytes ''DNS: '', Bytes ''host.example.'', Bytes ''\<newline>'',
      Bytes ''\<newline>WHOIS:\<newline>'', Bytes ''NetName: TEST-NET-1'',
      Bytes ''\<newline>\<newline>Location: '',
      Bytes ''Nairobi'', Bytes '' '', Bytes ''Nairobi'', Bytes '' '', Bytes ''KE'',
      Bytes '' ('', Fprint (VFloat (-1.29)), Bytes '', '', Fprint (VFloat 36.82), Bytes '') '',
      Bytes ''\<newline>\<newline>ID: '', Bytes ''req-1'', Bytes ''\<newline>'']"
proof -
  have h: "handleMyIP_ok response_nairobi request0 = (Some response_nairobi, None)"
    by (simp add: handleMyIP_ok_def)
  have r: "RemoteAddrReverse response_nairobi = Some \<lparr>Names = [''host.example.'']\<rparr>"
          "RemoteAddrWhois response_nairobi = Some \<lparr>Body = ''NetName: TEST-NET-1''\<rparr>"
          "Location response_nairobi =
             Some \<lparr>City = ''Nairobi'', Region = ''Nairobi'', Country = ''KE'',
                   Lat = -1.29, Long = 36.82\<rparr>"
    by (simp_all add: response_nairobi_def response0_def)
  show ?thesis
    using cliHandler_location_line
            [where handleMyIP = "handleMyIP_ok response_nairobi" and req = request0
               and app = server0 and w = newWriter, OF h r]
    by (simp add: newWriter_def) (simp add: response_nairobi_def response0_def)
qed

text \<open>
  Claim C6 as stated fails when exactly one coordinate is zero: for a place on the
  equator, latitude 0 and longitude 36.8, the claim asks for the coordinates, and the
  location line ends after the country.
\<close>

theorem cliHandler_location_line_counterexample:
  "Location response0 =
     Some \<lparr>City = ''Nanyuki'', Region = ''Laikipia'', Country = ''KE'', Lat = 0, Long = 36.8\<rparr>
   \<and> (36.8 :: real) \<noteq> 0
   \<and> body (cliHandler server0 (handleMyIP_ok response0) newWriter request0) =
       [Bytes ''IP: '', Bytes ''192.0.2.5'', Bytes ''\<newline>'',
        Bytes ''DNS: '', Bytes ''host.example.'', Bytes ''\<newline>'',
        Bytes ''\<newline>WHOIS:\<newline>'', Bytes ''NetName: TEST-NET-1'',
        Bytes ''\<newline>\<newline>Location: '',
        Bytes ''Nanyuki'', Bytes '' '', Bytes ''Laikipia'', Bytes '' '', Bytes ''KE'',
        Bytes ''\<newline>\<newline>ID: '', Bytes ''req-1'', Bytes ''\<newline>'']"
proof -
  have r: "RemoteAddrReverse response0 = Some \<lparr>Names = [''host.example.'']\<rparr>"
          "RemoteAddrWhois response0 = Some \<lparr>Body = ''NetName: TEST-NET-1''\<rparr>"
          "Location response0 = Some \<lparr>City = ''Nanyuki'', Region = ''Laikipia'', Country = ''KE'',
                                  Lat = 0, Long = 36.8\<rparr>"
    by (simp_all add: response0_def)
  show ?thesis
    by (simp add: r cliHandler_def handleMyIP_ok_def body_WriteText walkList_cliTmpl [OF r]
        newWriter_def) (simp add: response0_def)
qed

subsection \<open>A missing enrichment\<close>

text \<open>
  Claim C7: on the plain-text path the code does not do what the claim says. For a
  response whose geolocation is missing (\<open>Location\<close> is nil) the template stops at
  \<open>.Location.City\<close> with a nil-pointer error: the report is cut off after
  \<open>Location: \<close> and the error text is appended. On the JSON path the same response is
  written as a \<open>Response\<close> document, and \<open>Location\<close> is not among its members.
\<close>

theorem cliHandler_nil_enrichment_fails:
  "Location response_nogeo = None
   \<and> status (cliHandler server0 (handleMyIP_ok response_nogeo) newWriter request0) = Some 200
   \<and> body (cliHandler server0 (handleMyIP_ok response_nogeo) newWriter request0) =
       [Bytes ''IP: '', Bytes ''192.0.2.5'', Bytes ''\<newline>'',
        Bytes ''DNS: '', Bytes ''host.example.'', Bytes ''\<newline>'',
        Bytes ''\<newline>WHOIS:\<newline>'', Bytes ''NetName: TEST-NET-1'',
        Bytes ''\<newline>\<newline>Location: '',
        Bytes ''template: test: nil pointer evaluating *location.Response.City'']
   \<and> body (jsonHandler server0 (handleMyIP_ok response_nogeo) addInsights0 newWriter request0) =
       [JSON (ptr_Response (Some response_nogeo))]
   \<and> json_members response_nogeo =
       [''RequestID'', ''RemoteAddr'', ''RemoteAddrFamily'', ''RemoteAddrReverse'',
        ''RemoteAddrWhois'', ''Method'', ''URL'', ''Proto'', ''Header'']"
proof -
  have w: "status newWriter = None" "body newWriter = []"
    by (simp_all add: newWriter_def)
  have j: "json_members response_nogeo =
       [''RequestID'', ''RemoteAddr'', ''RemoteAddrFamily'', ''RemoteAddrReverse'',
        ''RemoteAddrWhois'', ''Method'', ''URL'', ''Proto'', ''Header'']"
    by (simp add: json_members_def response_nogeo_def response0_def)
  have l: "Location response_nogeo = None"
    by (simp add: response_nogeo_def)
  show ?thesis
    by (simp add: l j cliHandler_def jsonHandler_def handleMyIP_ok_def status_WriteText
        body_WriteText body_WriteJSON walkList_nogeo w name_cliTmpl)
qed

text \<open>
  The members of the JSON document leave out exactly the enrichments that are nil.
\<close>

lemma json_members_enrichment:
  "(''RemoteAddrReverse'' \<in> set (json_members r)) = (RemoteAddrReverse r \<noteq> None)"
  "(''RemoteAddrWhois'' \<in> set (json_members r)) = (RemoteAddrWhois r \<noteq> None)"
  "(''Location'' \<in> set (json_members r)) = (Location r \<noteq> None)"
  "(''UserAgent'' \<in> set (json_members r)) = (UserAgent r \<noteq> None)"
  by (simp_all add: json_members_def)

subsection \<open>Errors on the plain-text path\<close>

text \<open>
  Two parts of claim C8 hold. An error of \<open>HandleMyIP\<close> gives status 500 and the error
  text as the whole body; a template that executes without error is written, and the
  status is not 500.
\<close>

lemma WriteText_pipeline_error:
  assumes "status w = None"
  shows "status (WriteText s w req tmpl data (Some e)) = Some 500
       \<and> body (WriteText s w req tmpl data (Some e)) = body w @ [Bytes (err_Error e)]"
  using assms by (simp add: status_WriteText body_WriteText)

lemma WriteText_template_ok:
  assumes "status w = None" and "walkList data (Tree tmpl) = (out, None)"
  shows "status (WriteText s w req tmpl data None) \<noteq> Some 500
       \<and> body (WriteText s w req tmpl data None) = body w @ out"
  using assms by (simp add: status_WriteText body_WriteText)

text \<open>
  The third part does not hold for \<open>cliTmpl\<close>: whenever its execution fails, the text
  written before the failure has already gone out with status 200, and the error text
  follows it in the body.
\<close>

lemma WriteText_cliTmpl_failure:
  assumes "status w = None" and "walkList data (Tree cliTmpl) = (out, Some m)"
  shows "status (WriteText s w req cliTmpl data None) = Some 200
       \<and> body (WriteText s w req cliTmpl data None)
           = body w @ out @ [Bytes (err_Error (ExecError ''test'' m))]
       \<and> out \<noteq> []"
proof -
  from walkList_cliTmpl_first [of data] assms(2) have "out \<noteq> []"
    by auto
  then show ?thesis
    using assms by (simp add: status_WriteText body_WriteText name_cliTmpl)
qed

text \<open>
  Claim C8: where the template fails, the code does not do what the claim says. For a
  response without reverse DNS record \<open>HandleMyIP\<close> returns no error, the execution of
  \<open>cliTmpl\<close> fails at \<open>.RemoteAddrReverse.Names\<close>, and the response has status 200, not
  500; its body is the beginning of the report followed by the error text, not the
  error text alone.
\<close>

theorem cliHandler_template_failure_status:
  "handleMyIP_ok response_nodns request0 = (Some response_nodns, None)
   \<and> snd (Execute cliTmpl newWriter (Response_val (Some response_nodns)))
       = Some (ExecError ''test'' ''nil pointer evaluating *dns.Response.Names'')
   \<and> status (cliHandler server0 (handleMyIP_ok response_nodns) newWriter request0) = Some 200
   \<and> body (cliHandler server0 (handleMyIP_ok response_nodns) newWriter request0) =
       [Bytes ''IP: '', Bytes ''192.0.2.5'', Bytes ''\<newline>'',
        Bytes ''template: test: nil pointer evaluating *dns.Response.Names'']"
proof -
  have w: "status newWriter = None" "body newWriter = []"
    by (simp_all add: newWriter_def)
  show ?thesis
    by (simp add: cliHandler_def handleMyIP_ok_def status_WriteText body_WriteText
        Execute_fields walkList_nodns w name_cliTmpl)
qed

end
